theory Spec2Isabelle
  imports Complex_Main
begin

section \<open>Thinkle: the agent pipeline and its configuration\<close>

text \<open>
  A shallow embedding of the newsletter pipeline: the configuration parser
  (\<^verbatim>\<open>config/config_parser.py\<close>), the records passed between stages
  (\<^verbatim>\<open>agents/states.py\<close>), the planner, scout and evaluator stages
  (\<^verbatim>\<open>agents/planner.py\<close>, \<^verbatim>\<open>agents/scout.py\<close>, \<^verbatim>\<open>agents/evaluator.py\<close>) and the fan-out
  of the orchestrator (\<^verbatim>\<open>generate_newsletter.py\<close>).

  Calls that leave the repository are parameters of the model: the language model, the
  tool node, the regular-expression search, \<^verbatim>\<open>json.loads\<close> and the routing helper of the
  graph library. Each of them may answer anything of its type, or fail.
\<close>

subsection \<open>Errors\<close>

datatype error =
    FileNotFoundError
  | YAMLError
  | ValueError string
  | ValidationError
  | ModelCallError
  | ToolNodeError

subsection \<open>Python strings\<close>

text \<open>
  A Python \<^verbatim>\<open>str\<close> is a list of code points; a \<^typ>\<open>char\<close> stands for a code point
  below 256. \<^verbatim>\<open>str.lower\<close> and the whitespace of \<^verbatim>\<open>str.strip\<close> follow Python's
  tables on that range.
\<close>

definition lower_char :: "char \<Rightarrow> char" where
  "lower_char c =
     (let n = (of_char c :: nat) in
      if (65 \<le> n \<and> n \<le> 90) \<or> (192 \<le> n \<and> n \<le> 222 \<and> n \<noteq> 215)
      then char_of (n + 32) else c)"

definition lower :: "string \<Rightarrow> string" where
  "lower s = map lower_char s"

definition is_space :: "char \<Rightarrow> bool" where
  "is_space c = ((of_char c :: nat) \<in> {9, 10, 11, 12, 13, 28, 29, 30, 31, 32, 133, 160})"

definition strip :: "string \<Rightarrow> string" where
  "strip s = rev (dropWhile is_space (rev (dropWhile is_space s)))"

subsection \<open>Configuration records\<close>

record RedditSettings =
  min_upvotes :: int
  max_age_hours :: int

record YouTubeSettings =
  min_views :: int
  max_duration_minutes :: int

record ContentSettings =
  include_academic :: bool
  include_reddit :: bool
  include_youtube :: bool
  include_news :: bool
  reddit :: RedditSettings
  youtube :: YouTubeSettings

record NewsletterSettings =
  tone :: string
  include_opinions :: bool
  frequency :: string
  max_stories :: int

record OutputSettings =
  format :: string
  include_sources :: bool
  include_summary_stats :: bool

record ModelSettings =
  planner :: string
  scout :: string
  evaluator :: string
  writer :: string

record ThinkleConfig =
  interests :: "string list"
  user_profile :: string
  newsletter :: NewsletterSettings
  content :: ContentSettings
  output_settings :: OutputSettings
  models :: ModelSettings
  max_tasks :: int

text \<open>
  The mapping that \<^verbatim>\<open>yaml.safe_load\<close> returns and \<^verbatim>\<open>ThinkleConfig(**raw_config)\<close> takes.
  A key that is absent is \<open>None\<close> and gets the default of its \<^verbatim>\<open>Field\<close>. The values are
  taken to have the declared types already; \<open>raw_extra_keys\<close> lists the top-level keys
  that are not fields of \<^verbatim>\<open>ThinkleConfig\<close>.
\<close>

record raw_reddit =
  raw_min_upvotes :: "int option"
  raw_max_age_hours :: "int option"

record raw_youtube =
  raw_min_views :: "int option"
  raw_max_duration_minutes :: "int option"

record raw_content =
  raw_include_academic :: "bool option"
  raw_include_reddit :: "bool option"
  raw_include_youtube :: "bool option"
  raw_include_news :: "bool option"
  raw_reddit_settings :: "raw_reddit option"
  raw_youtube_settings :: "raw_youtube option"

record raw_newsletter =
  raw_tone :: "string option"
  raw_include_opinions :: "bool option"
  raw_frequency :: "string option"
  raw_max_stories :: "int option"

record raw_output =
  raw_format :: "string option"
  raw_include_sources :: "bool option"
  raw_include_summary_stats :: "bool option"

record raw_models =
  raw_planner :: "string option"
  raw_scout :: "string option"
  raw_evaluator :: "string option"
  raw_writer :: "string option"

record raw_config =
  raw_interests :: "string list option"
  raw_user_profile :: "string option"
  raw_newsletter_settings :: "raw_newsletter option"
  raw_content_settings :: "raw_content option"
  raw_output_settings :: "raw_output option"
  raw_model_settings :: "raw_models option"
  raw_max_tasks :: "int option"
  raw_extra_keys :: "string list"

subsection \<open>Validation of the configuration\<close>

definition default :: "'a \<Rightarrow> 'a option \<Rightarrow> 'a" where
  "default d v = (case v of None \<Rightarrow> d | Some x \<Rightarrow> x)"

definition validate_RedditSettings :: "raw_reddit \<Rightarrow> error + RedditSettings" where
  "validate_RedditSettings r =
     (let u = default 100 (raw_min_upvotes r); a = default 48 (raw_max_age_hours r) in
      if 0 \<le> u \<and> 0 < a then Inr \<lparr>min_upvotes = u, max_age_hours = a\<rparr>
      else Inl ValidationError)"

definition validate_YouTubeSettings :: "raw_youtube \<Rightarrow> error + YouTubeSettings" where
  "validate_YouTubeSettings r =
     (let v = default 10000 (raw_min_views r); d = default 60 (raw_max_duration_minutes r) in
      if 0 \<le> v \<and> 0 < d then Inr \<lparr>min_views = v, max_duration_minutes = d\<rparr>
      else Inl ValidationError)"

definition validate_at_least_one_source :: "ContentSettings \<Rightarrow> error + ContentSettings" where
  "validate_at_least_one_source c =
     (if \<not> (include_academic c \<or> include_reddit c \<or> include_youtube c \<or> include_news c)
      then Inl ValidationError else Inr c)"

definition validate_ContentSettings :: "raw_content \<Rightarrow> error + ContentSettings" where
  "validate_ContentSettings r =
     (case validate_RedditSettings
             (default \<lparr>raw_min_upvotes = None, raw_max_age_hours = None\<rparr> (raw_reddit_settings r)) of
        Inl e \<Rightarrow> Inl e
      | Inr rd \<Rightarrow>
         (case validate_YouTubeSettings
                 (default \<lparr>raw_min_views = None, raw_max_duration_minutes = None\<rparr>
                    (raw_youtube_settings r)) of
            Inl e \<Rightarrow> Inl e
          | Inr yt \<Rightarrow>
             validate_at_least_one_source
               \<lparr>include_academic = default True (raw_include_academic r),
                include_reddit = default True (raw_include_reddit r),
                include_youtube = default True (raw_include_youtube r),
                include_news = default True (raw_include_news r),
                reddit = rd, youtube = yt\<rparr>))"

definition validate_NewsletterSettings :: "raw_newsletter \<Rightarrow> error + NewsletterSettings" where
  "validate_NewsletterSettings r =
     (let t = default ''witty'' (raw_tone r); f = default ''weekly'' (raw_frequency r);
          m = default 10 (raw_max_stories r) in
      if t \<in> {''professional'', ''witty'', ''casual'', ''academic''}
         \<and> f \<in> {''daily'', ''weekly''} \<and> 0 < m \<and> m \<le> 50
      then Inr \<lparr>tone = t, include_opinions = default True (raw_include_opinions r),
                frequency = f, max_stories = m\<rparr>
      else Inl ValidationError)"

definition validate_OutputSettings :: "raw_output \<Rightarrow> error + OutputSettings" where
  "validate_OutputSettings r =
     (let f = default ''markdown'' (raw_format r) in
      if f \<in> {''markdown'', ''pdf'', ''html''}
      then Inr \<lparr>format = f, include_sources = default True (raw_include_sources r),
                include_summary_stats = default True (raw_include_summary_stats r)\<rparr>
      else Inl ValidationError)"

definition validate_ModelSettings :: "raw_models \<Rightarrow> ModelSettings" where
  "validate_ModelSettings r =
     \<lparr>planner = default ''gpt-5-mini'' (raw_planner r),
      scout = default ''gpt-5-mini'' (raw_scout r),
      evaluator = default ''gpt-5-mini'' (raw_evaluator r),
      writer = default ''gpt-5-mini'' (raw_writer r)\<rparr>"

text \<open>
  The loop of \<^verbatim>\<open>validate_interests\<close>: \<open>seen\<close> holds the lower-cased entries met so far,
  \<open>unique_interests\<close> the stripped entries kept so far.
\<close>

fun unique_loop :: "string list \<Rightarrow> string set \<Rightarrow> string list \<Rightarrow> string list" where
  "unique_loop [] seen unique_interests = unique_interests"
| "unique_loop (interest # v) seen unique_interests =
     (if lower interest \<notin> seen
      then unique_loop v (insert (lower interest) seen) (unique_interests @ [strip interest])
      else unique_loop v seen unique_interests)"

definition validate_interests :: "string list \<Rightarrow> error + string list" where
  "validate_interests v =
     (if v = [] then Inl (ValueError ''At least one interest must be specified'')
      else Inr (unique_loop v {} []))"

text \<open>
  \<^verbatim>\<open>ThinkleConfig(**raw_config)\<close>: \<^verbatim>\<open>interests\<close> is required and has \<^verbatim>\<open>min_length=1\<close>, extra
  keys are forbidden, and an error raised in a validator becomes a validation error.
\<close>

definition ThinkleConfig_init :: "raw_config \<Rightarrow> error + ThinkleConfig" where
  "ThinkleConfig_init r =
     (if raw_extra_keys r \<noteq> [] then Inl ValidationError
      else case raw_interests r of
        None \<Rightarrow> Inl ValidationError
      | Some v \<Rightarrow>
         (if length v < 1 then Inl ValidationError
          else case validate_interests v of
            Inl e \<Rightarrow> Inl ValidationError
          | Inr ints \<Rightarrow>
             (case validate_NewsletterSettings
                     (default \<lparr>raw_tone = None, raw_include_opinions = None,
                               raw_frequency = None, raw_max_stories = None\<rparr>
                        (raw_newsletter_settings r)) of
                Inl e \<Rightarrow> Inl e
              | Inr nl \<Rightarrow>
                 (case validate_ContentSettings
                         (default \<lparr>raw_include_academic = None, raw_include_reddit = None,
                                   raw_include_youtube = None, raw_include_news = None,
                                   raw_reddit_settings = None, raw_youtube_settings = None\<rparr>
                            (raw_content_settings r)) of
                    Inl e \<Rightarrow> Inl e
                  | Inr ct \<Rightarrow>
                     (case validate_OutputSettings
                             (default \<lparr>raw_format = None, raw_include_sources = None,
                                       raw_include_summary_stats = None\<rparr>
                                (raw_output_settings r)) of
                        Inl e \<Rightarrow> Inl e
                      | Inr ou \<Rightarrow>
                         (let mt = default 1 (raw_max_tasks r) in
                          if 0 < mt \<and> mt \<le> 10
                          then Inr \<lparr>interests = ints,
                                    user_profile = default [] (raw_user_profile r),
                                    newsletter = nl, content = ct, output_settings = ou,
                                    models = validate_ModelSettings
                                      (default \<lparr>raw_planner = None, raw_scout = None,
                                                raw_evaluator = None, raw_writer = None\<rparr>
                                         (raw_model_settings r)),
                                    max_tasks = mt\<rparr>
                          else Inl ValidationError))))))"

subsection \<open>Loading and saving\<close>

text \<open>
  What \<^verbatim>\<open>load_config\<close> finds at \<^verbatim>\<open>config_path\<close>: no file, a file that is not YAML, an
  empty document, or a mapping. \<^verbatim>\<open>save_config\<close> writes the dump of the model; PyYAML's
  text form stays outside the model, so the file holds the mapping that was dumped.
\<close>

datatype config_file = NoFile | Malformed | EmptyDocument | Document raw_config

definition load_config :: "config_file \<Rightarrow> error + ThinkleConfig" where
  "load_config file =
     (case file of
        NoFile \<Rightarrow> Inl FileNotFoundError
      | Malformed \<Rightarrow> Inl YAMLError
      | EmptyDocument \<Rightarrow> Inl (ValueError ''Configuration file is empty'')
      | Document raw \<Rightarrow>
         (case ThinkleConfig_init raw of
            Inl e \<Rightarrow> Inl (ValueError ''Configuration validation failed'')
          | Inr config \<Rightarrow> Inr config))"

definition model_dump :: "ThinkleConfig \<Rightarrow> raw_config" where
  "model_dump c =
     \<lparr>raw_interests = Some (interests c),
      raw_user_profile = Some (user_profile c),
      raw_newsletter_settings = Some
        \<lparr>raw_tone = Some (tone (newsletter c)),
         raw_include_opinions = Some (include_opinions (newsletter c)),
         raw_frequency = Some (frequency (newsletter c)),
         raw_max_stories = Some (max_stories (newsletter c))\<rparr>,
      raw_content_settings = Some
        \<lparr>raw_include_academic = Some (include_academic (content c)),
         raw_include_reddit = Some (include_reddit (content c)),
         raw_include_youtube = Some (include_youtube (content c)),
         raw_include_news = Some (include_news (content c)),
         raw_reddit_settings = Some
           \<lparr>raw_min_upvotes = Some (min_upvotes (reddit (content c))),
            raw_max_age_hours = Some (max_age_hours (reddit (content c)))\<rparr>,
         raw_youtube_settings = Some
           \<lparr>raw_min_views = Some (min_views (youtube (content c))),
            raw_max_duration_minutes = Some (max_duration_minutes (youtube (content c)))\<rparr>\<rparr>,
      raw_output_settings = Some
        \<lparr>raw_format = Some (format (output_settings c)),
         raw_include_sources = Some (include_sources (output_settings c)),
         raw_include_summary_stats = Some (include_summary_stats (output_settings c))\<rparr>,
      raw_model_settings = Some
        \<lparr>raw_planner = Some (planner (models c)), raw_scout = Some (scout (models c)),
         raw_evaluator = Some (evaluator (models c)), raw_writer = Some (writer (models c))\<rparr>,
      raw_max_tasks = Some (max_tasks c),
      raw_extra_keys = []\<rparr>"

definition save_config :: "ThinkleConfig \<Rightarrow> config_file" where
  "save_config config = Document (model_dump config)"

text \<open>A file that gives only the interests.\<close>

definition interests_only :: "string list \<Rightarrow> config_file" where
  "interests_only v =
     Document \<lparr>raw_interests = Some v, raw_user_profile = None, raw_newsletter_settings = None,
               raw_content_settings = None, raw_output_settings = None,
               raw_model_settings = None, raw_max_tasks = None, raw_extra_keys = []\<rparr>"

section \<open>Records passed between stages\<close>

record ResearchTask =
  topic :: string
  additional_info :: string

record NewsStory =
  title :: string
  summary :: string
  source :: string
  url :: string
  score :: int
  timestamp :: string
  topic :: string

record ScoutOutput =
  NewsStories :: "NewsStory list"
  Explanation :: string

record EvaluatorOutput =
  NewsStories :: "NewsStory list"
  InvestigatorTasks :: "ResearchTask list"
  Explanation :: string

record PlannerOutput =
  ScoutTasks :: "ResearchTask list"

text \<open>
  A \<^verbatim>\<open>ScoutState\<close> is the dictionary a \<^verbatim>\<open>Send\<close> carries to a scout: the key \<^verbatim>\<open>config\<close>
  may be absent, which is what \<^verbatim>\<open>state.get("config")\<close> tests.
\<close>

record ScoutState =
  AssignedTask :: ResearchTask
  config :: "ThinkleConfig option"

subsection \<open>Messages\<close>

text \<open>
  A prompt is the template of \<^verbatim>\<open>prompts.py\<close> together with the values formatted into it;
  the text of the templates is not reproduced. The content of a human message is the
  dictionary that the stage passes to \<^verbatim>\<open>json.dumps\<close>.
\<close>

datatype prompt =
    SCOUT_PROMPT string string
  | EVALUATOR_PROMPT "string list" string
  | PLANNER_PROMPT "string list" string string int

datatype tool_call = ToolCall string string

datatype human_content =
    StoriesPayload "NewsStory list"
  | TasksCompletedPayload "ResearchTask list"
  | FollowupPayload int nat "(string \<times> string) list"

datatype message =
    SystemMessage prompt
  | HumanMessage human_content
  | AIMessage string "tool_call list"
  | ToolMessage string

subsection \<open>JSON values and schema validation\<close>

text \<open>
  The values \<^verbatim>\<open>json.loads\<close> returns. An object is the list of the items of the Python
  dictionary; a float is given by its exact value, \<open>JNonFinite\<close> being NaN and the
  infinities.
\<close>

datatype json =
    JNull
  | JBool bool
  | JInt int
  | JFloat rat
  | JNonFinite
  | JStr string
  | JArr "json list"
  | JObj "(string \<times> json) list"

text \<open>
  \<^verbatim>\<open>ScoutOutput.model_validate(data)\<close> is pydantic's validation of the fields declared in
  \<^verbatim>\<open>states.py\<close>, in its default (lax) mode: every field is required (\<^verbatim>\<open>Field(...)\<close>), a
  \<^verbatim>\<open>str\<close> field takes a string only, an \<^verbatim>\<open>int\<close> field takes an integer of any size, a
  boolean, a float without fractional part that lies strictly between \<open>- 2 ^ 63\<close> and
  \<open>2 ^ 63\<close>, or a string that pydantic reads as an integer. That reading of strings is the
  parameter \<open>str_int\<close>. No field declares a bound.
\<close>

fun validate_str :: "json \<Rightarrow> string option" where
  "validate_str (JStr s) = Some s"
| "validate_str _ = None"

fun validate_int :: "(string \<Rightarrow> int option) \<Rightarrow> json \<Rightarrow> int option" where
  "validate_int str_int (JInt n) = Some n"
| "validate_int str_int (JBool b) = Some (if b then 1 else 0)"
| "validate_int str_int (JFloat r) =
     (if r = of_int \<lfloor>r\<rfloor> \<and> - (2 ^ 63) < r \<and> r < 2 ^ 63 then Some \<lfloor>r\<rfloor> else None)"
| "validate_int str_int (JStr s) = str_int s"
| "validate_int str_int _ = None"

definition field :: "(string \<times> json) list \<Rightarrow> string \<Rightarrow> (json \<Rightarrow> 'a option) \<Rightarrow> 'a option" where
  "field kvs k v = (case map_of kvs k of None \<Rightarrow> None | Some j \<Rightarrow> v j)"

fun validate_list :: "(json \<Rightarrow> 'a option) \<Rightarrow> json \<Rightarrow> 'a list option" where
  "validate_list v (JArr xs) = those (map v xs)"
| "validate_list v _ = None"

fun NewsStory_validate :: "(string \<Rightarrow> int option) \<Rightarrow> json \<Rightarrow> NewsStory option" where
  "NewsStory_validate str_int (JObj kvs) =
     Option.bind (field kvs ''title'' validate_str) (\<lambda>v_title.
     Option.bind (field kvs ''summary'' validate_str) (\<lambda>v_summary.
     Option.bind (field kvs ''source'' validate_str) (\<lambda>v_source.
     Option.bind (field kvs ''url'' validate_str) (\<lambda>v_url.
     Option.bind (field kvs ''score'' (validate_int str_int)) (\<lambda>v_score.
     Option.bind (field kvs ''timestamp'' validate_str) (\<lambda>v_timestamp.
     Option.bind (field kvs ''topic'' validate_str) (\<lambda>v_topic.
       Some \<lparr>title = v_title, summary = v_summary, source = v_source, url = v_url,
             score = v_score, timestamp = v_timestamp, topic = v_topic\<rparr>)))))))"
| "NewsStory_validate str_int _ = None"

fun ScoutOutput_model_validate :: "(string \<Rightarrow> int option) \<Rightarrow> json \<Rightarrow> ScoutOutput option" where
  "ScoutOutput_model_validate str_int (JObj kvs) =
     Option.bind (field kvs ''NewsStories'' (validate_list (NewsStory_validate str_int))) (\<lambda>v_stories.
     Option.bind (field kvs ''Explanation'' validate_str) (\<lambda>v_explanation.
       Some \<lparr>ScoutOutput.NewsStories = v_stories, Explanation = v_explanation\<rparr>))"
| "ScoutOutput_model_validate str_int _ = None"

text \<open>The plain decimal numerals, which are among the strings read as integers.\<close>

definition digit_value :: "char \<Rightarrow> nat option" where
  "digit_value c =
     (let n = (of_char c :: nat) in if 48 \<le> n \<and> n \<le> 57 then Some (n - 48) else None)"

fun digits_value :: "string \<Rightarrow> nat \<Rightarrow> nat option" where
  "digits_value [] acc = Some acc"
| "digits_value (c # cs) acc =
     (case digit_value c of None \<Rightarrow> None | Some d \<Rightarrow> digits_value cs (10 * acc + d))"

definition decimal_int :: "string \<Rightarrow> int option" where
  "decimal_int s = (if s = [] then None else map_option int (digits_value s 0))"

section \<open>The scout stage\<close>

text \<open>
  What the scout calls outside the repository. The first argument of the three model
  calls is the model name given to \<^verbatim>\<open>ChatOpenAI\<close>.
  \<^item> \<open>bound_llm\<close>: \<^verbatim>\<open>llm.bind_tools(...).invoke\<close>, answering the content and the tool calls of an
    AI message;
  \<^item> \<open>structured_llm\<close>: \<^verbatim>\<open>llm.with_structured_output(ScoutOutput).invoke\<close>;
  \<^item> \<open>plain_llm\<close>: \<^verbatim>\<open>llm.invoke\<close>, answering the content of the message;
  \<^item> \<open>tool_node\<close>: the prebuilt \<^verbatim>\<open>ToolNode\<close>, answering the tool messages to append;
  \<^item> \<open>fence_search\<close>: group 1 of the \<^verbatim>\<open>re.search\<close> for a fenced block, if it matches;
  \<^item> \<open>json_loads\<close>: \<^verbatim>\<open>json.loads\<close>, \<open>None\<close> for a \<^verbatim>\<open>JSONDecodeError\<close>;
  \<^item> \<open>str_to_int\<close>: the reading of a string as an integer by the schema validation;
  \<^item> \<open>no_tool_calls\<close>: where the prebuilt \<^verbatim>\<open>tools_condition\<close> sends a message without tool
    calls. The comment in \<^verbatim>\<open>scout.py\<close> names the node \<^verbatim>\<open>final\<close>; the helper belongs to the
    graph library, so both targets are kept.
\<close>

datatype target = ToFinal | ToEnd

record scout_env =
  bound_llm :: "string \<Rightarrow> message list \<Rightarrow> error + string \<times> tool_call list"
  structured_llm :: "string \<Rightarrow> message list \<Rightarrow> error + ScoutOutput"
  plain_llm :: "string \<Rightarrow> message list \<Rightarrow> error + string"
  tool_node :: "message list \<Rightarrow> error + message list"
  fence_search :: "string \<Rightarrow> string option"
  json_loads :: "string \<Rightarrow> json option"
  str_to_int :: "string \<Rightarrow> int option"
  no_tool_calls :: target

record AgentState =
  messages :: "message list"
  tool_iterations :: int
  NewsStories :: "NewsStory list"

text \<open>The calls made during a run, in order.\<close>

datatype event = AgentCall | ToolsRun | StructuredCall | PlainCall

definition model_invocations :: "event list \<Rightarrow> nat" where
  "model_invocations tr =
     count_list tr AgentCall + count_list tr StructuredCall + count_list tr PlainCall"

subsection \<open>The final step\<close>

text \<open>\<^verbatim>\<open>str.find\<close> and \<^verbatim>\<open>str.rfind\<close> of a single character: the index, or -1.\<close>

definition py_find :: "string \<Rightarrow> char \<Rightarrow> int" where
  "py_find s c = (if c \<in> set s then int (length (takeWhile (\<lambda>x. x \<noteq> c) s)) else - 1)"

definition py_rfind :: "string \<Rightarrow> char \<Rightarrow> int" where
  "py_rfind s c =
     (if c \<in> set s then int (length s) - 1 - int (length (takeWhile (\<lambda>x. x \<noteq> c) (rev s)))
      else - 1)"

definition isolate_json :: "scout_env \<Rightarrow> string \<Rightarrow> string" where
  "isolate_json env raw_text =
     (let body = (case fence_search env raw_text of
                       Some group1 \<Rightarrow> strip group1
                     | None \<Rightarrow> raw_text);
          start = py_find body CHR ''{'';
          stop = py_rfind body CHR ''}''
      in if start \<noteq> - 1 \<and> stop \<noteq> - 1 \<and> stop > start
         then take (nat (stop + 1 - start)) (drop (nat start) body)
         else body)"

definition final_step ::
  "scout_env \<Rightarrow> string \<Rightarrow> prompt \<Rightarrow> AgentState \<Rightarrow> event list \<times> (error + NewsStory list)" where
  "final_step env model_name system_prompt s =
     (let msgs = SystemMessage system_prompt # messages s in
      case structured_llm env model_name msgs of
        Inr parsed \<Rightarrow> ([StructuredCall], Inr (ScoutOutput.NewsStories parsed))
      | Inl exn \<Rightarrow>
         (case plain_llm env model_name msgs of
            Inl e \<Rightarrow> ([StructuredCall, PlainCall], Inl e)
          | Inr body \<Rightarrow>
             (case json_loads env (isolate_json env body) of
                None \<Rightarrow> ([StructuredCall, PlainCall],
                          Inl (ValueError ''Scout output was not valid JSON''))
              | Some data \<Rightarrow>
                 (case ScoutOutput_model_validate (str_to_int env) data of
                    None \<Rightarrow> ([StructuredCall, PlainCall],
                              Inl (ValueError ''Scout output failed validation''))
                  | Some parsed \<Rightarrow>
                     ([StructuredCall, PlainCall], Inr (ScoutOutput.NewsStories parsed))))))"

subsection \<open>The tool loop\<close>

definition agent_step ::
  "scout_env \<Rightarrow> string \<Rightarrow> prompt \<Rightarrow> AgentState \<Rightarrow> error + string \<times> tool_call list" where
  "agent_step env model_name system_prompt s =
     bound_llm env model_name (SystemMessage system_prompt # messages s)"

definition after_tools :: "AgentState \<Rightarrow> AgentState" where
  "after_tools s = s\<lparr>tool_iterations := tool_iterations s + 1\<rparr>"

definition final_node ::
  "scout_env \<Rightarrow> string \<Rightarrow> prompt \<Rightarrow> AgentState \<Rightarrow> event list \<times> (error + AgentState)" where
  "final_node env model_name system_prompt s =
     (case final_step env model_name system_prompt s of
        (tr, Inl e) \<Rightarrow> (tr, Inl e)
      | (tr, Inr stories) \<Rightarrow>
          (tr, Inr (s\<lparr>AgentState.NewsStories := AgentState.NewsStories s @ stories\<rparr>)))"

text \<open>
  The compiled subgraph, from the node \<^verbatim>\<open>agent\<close>: \<^verbatim>\<open>agent\<close> goes to \<^verbatim>\<open>tools\<close> when the message
  has tool calls, \<^verbatim>\<open>tools\<close> to \<^verbatim>\<open>after_tools\<close>, and \<^verbatim>\<open>after_tools\<close> back to \<^verbatim>\<open>agent\<close> while
  \<^verbatim>\<open>tool_iterations < 3\<close>, else to \<^verbatim>\<open>final\<close>.
\<close>

function scout_graph ::
  "scout_env \<Rightarrow> string \<Rightarrow> prompt \<Rightarrow> AgentState \<Rightarrow> event list \<times> (error + AgentState)" where
  "scout_graph env model_name system_prompt s =
     (case agent_step env model_name system_prompt s of
        Inl e \<Rightarrow> ([AgentCall], Inl e)
      | Inr (reply, calls) \<Rightarrow>
         (let s1 = s\<lparr>messages := messages s @ [AIMessage reply calls]\<rparr> in
          if calls \<noteq> [] then
            (case tool_node env (messages s1) of
               Inl e \<Rightarrow> ([AgentCall, ToolsRun], Inl e)
             | Inr results \<Rightarrow>
                (let s2 = after_tools (s1\<lparr>messages := messages s1 @ results\<rparr>) in
                 if tool_iterations s2 < 3
                 then (case scout_graph env model_name system_prompt s2 of
                         (tr, r) \<Rightarrow> (AgentCall # ToolsRun # tr, r))
                 else (case final_node env model_name system_prompt s2 of
                         (tr, r) \<Rightarrow> (AgentCall # ToolsRun # tr, r))))
          else (case no_tool_calls env of
                  ToFinal \<Rightarrow> (case final_node env model_name system_prompt s1 of
                                (tr, r) \<Rightarrow> (AgentCall # tr, r))
                | ToEnd \<Rightarrow> ([AgentCall], Inr s1))))"
  by pat_completeness auto
termination
  by (relation "measure (\<lambda>(env, model_name, system_prompt, s). nat (3 - tool_iterations s))")
     (auto simp: after_tools_def)

declare scout_graph.simps [simp del]

definition scout_model_name :: "ScoutState \<Rightarrow> string" where
  "scout_model_name state =
     (case config state of Some c \<Rightarrow> scout (models c) | None \<Rightarrow> ''gpt-5-mini'')"

definition scout_node :: "scout_env \<Rightarrow> ScoutState \<Rightarrow> event list \<times> (error + AgentState)" where
  "scout_node env state =
     (let assigned_task = AssignedTask state;
          system_prompt = SCOUT_PROMPT (ResearchTask.topic assigned_task)
                                       (additional_info assigned_task);
          model_name = scout_model_name state
      in scout_graph env model_name system_prompt
           \<lparr>messages = [], tool_iterations = 0, AgentState.NewsStories = []\<rparr>)"

section \<open>The evaluator stage\<close>

record EvaluatorState =
  config :: ThinkleConfig
  NewsStories :: "NewsStory list"
  InvestigatorTasks :: "ResearchTask list"
  followup_cycles :: int
  messages :: "message list"

text \<open>
  A node returns the keys it updates. \<^verbatim>\<open>NewsStories\<close> and \<^verbatim>\<open>messages\<close> are declared with
  reducers that append (\<^verbatim>\<open>operator.add\<close>, \<^verbatim>\<open>add_messages\<close>); the other keys are overwritten.
  The functions below return the state after the update. A key that the state does not
  hold yet reads as its \<^verbatim>\<open>state.get\<close> default: no tasks, zero cycles, no messages.
\<close>

datatype routing = Sends "ScoutState list" | EndRoute

definition router_node :: "EvaluatorState \<Rightarrow> routing" where
  "router_node state =
     (let tasks = InvestigatorTasks state in
      if tasks \<noteq> [] \<and> followup_cycles state < 1
      then Sends (map (\<lambda>t. \<lparr>AssignedTask =
                              \<lparr>ResearchTask.topic = ResearchTask.topic t,
                               additional_info = additional_info t\<rparr>,
                            ScoutState.config = None\<rparr>) tasks)
      else EndRoute)"

definition llm_node ::
  "(string \<Rightarrow> message list \<Rightarrow> error + EvaluatorOutput) \<Rightarrow> EvaluatorState
     \<Rightarrow> error + EvaluatorState" where
  "llm_node evaluator_llm state =
     (let cfg = EvaluatorState.config state;
          news_stories = EvaluatorState.NewsStories state;
          prior_messages = EvaluatorState.messages state;
          system_prompt = EVALUATOR_PROMPT (interests cfg) (user_profile cfg);
          msgs = [SystemMessage system_prompt, HumanMessage (StoriesPayload news_stories)]
                   @ prior_messages
                   @ (if length (InvestigatorTasks state) > 0
                      then [HumanMessage (TasksCompletedPayload (InvestigatorTasks state))]
                      else [])
      in case evaluator_llm (evaluator (models cfg)) msgs of
           Inl e \<Rightarrow> Inl e
         | Inr response \<Rightarrow>
             Inr (state\<lparr>EvaluatorState.NewsStories :=
                           EvaluatorState.NewsStories state @ EvaluatorOutput.NewsStories response,
                         InvestigatorTasks := EvaluatorOutput.InvestigatorTasks response\<rparr>))"

definition clear_tasks_node :: "EvaluatorState \<Rightarrow> EvaluatorState" where
  "clear_tasks_node state =
     (let new_cycle = followup_cycles state + 1;
          stories = EvaluatorState.NewsStories state;
          preview = (if stories \<noteq> []
                     then map (\<lambda>s. (title s, url s)) (drop (length stories - 3) stories)
                     else []);
          msg = HumanMessage (FollowupPayload new_cycle (length stories) preview)
      in state\<lparr>InvestigatorTasks := [], followup_cycles := new_cycle,
               EvaluatorState.messages := EvaluatorState.messages state @ [msg]\<rparr>)"

text \<open>
  The scouts of one fan-out, taken in the order of the \<^verbatim>\<open>Send\<close> list. Each returns the state
  of its subgraph; the keys it shares with the evaluator are \<^verbatim>\<open>NewsStories\<close> and \<^verbatim>\<open>messages\<close>.
\<close>

fun scout_fanout ::
  "scout_env \<Rightarrow> ScoutState list \<Rightarrow> error + NewsStory list \<times> message list" where
  "scout_fanout senv [] = Inr ([], [])"
| "scout_fanout senv (p # ps) =
     (case snd (scout_node senv p) of
        Inl e \<Rightarrow> Inl e
      | Inr a \<Rightarrow>
         (case scout_fanout senv ps of
            Inl e \<Rightarrow> Inl e
          | Inr (stories, msgs) \<Rightarrow>
              Inr (AgentState.NewsStories a @ stories, AgentState.messages a @ msgs)))"

datatype eval_event =
    Evaluated EvaluatorState
  | Dispatched "ScoutState list"
  | Cleared EvaluatorState

text \<open>
  The compiled evaluator graph, from the node \<^verbatim>\<open>llm\<close>: the router ends the run or sends
  the scouts, \<^verbatim>\<open>scout\<close> goes to \<^verbatim>\<open>clear_tasks\<close>, and \<^verbatim>\<open>clear_tasks\<close> back to \<^verbatim>\<open>llm\<close>. The log
  lists the states after each \<^verbatim>\<open>llm\<close> and \<^verbatim>\<open>clear_tasks\<close> node and the fan-outs.
\<close>

function evaluator_graph ::
  "scout_env \<Rightarrow> (string \<Rightarrow> message list \<Rightarrow> error + EvaluatorOutput) \<Rightarrow> EvaluatorState
     \<Rightarrow> eval_event list \<times> (error + EvaluatorState)" where
  "evaluator_graph senv evaluator_llm state =
     (case llm_node evaluator_llm state of
        Inl e \<Rightarrow> ([], Inl e)
      | Inr s1 \<Rightarrow>
         (case router_node s1 of
            EndRoute \<Rightarrow> ([Evaluated s1], Inr s1)
          | Sends payloads \<Rightarrow>
             (case scout_fanout senv payloads of
                Inl e \<Rightarrow> ([Evaluated s1, Dispatched payloads], Inl e)
              | Inr (stories, msgs) \<Rightarrow>
                 (let s2 = clear_tasks_node
                             (s1\<lparr>EvaluatorState.NewsStories :=
                                    EvaluatorState.NewsStories s1 @ stories,
                                  EvaluatorState.messages :=
                                    EvaluatorState.messages s1 @ msgs\<rparr>)
                  in case evaluator_graph senv evaluator_llm s2 of
                       (evs, r) \<Rightarrow> (Evaluated s1 # Dispatched payloads # Cleared s2 # evs, r)))))"
  by pat_completeness auto
termination
  by (relation "measure (\<lambda>(senv, evaluator_llm, state). nat (1 - followup_cycles state))")
     (auto simp: llm_node_def router_node_def clear_tasks_node_def Let_def
           split: sum.splits if_splits)

declare evaluator_graph.simps [simp del]

definition scouting_rounds :: "eval_event list \<Rightarrow> ScoutState list list" where
  "scouting_rounds evs = concat (map (\<lambda>ev. case ev of Dispatched ps \<Rightarrow> [ps] | _ \<Rightarrow> []) evs)"

definition states_of :: "eval_event list \<Rightarrow> EvaluatorState list" where
  "states_of evs =
     concat (map (\<lambda>ev. case ev of Evaluated s \<Rightarrow> [s] | Cleared s \<Rightarrow> [s] | _ \<Rightarrow> []) evs)"

section \<open>The planner stage and the fan-out of the orchestrator\<close>

record PlannerState =
  config :: ThinkleConfig
  ScoutTasks :: "ResearchTask list"
  NewsStories :: "NewsStory list"
  Report :: string

text \<open>\<open>date\<close> is today's date as \<^verbatim>\<open>datetime.now().strftime\<close> prints it.\<close>

definition planner_node ::
  "(string \<Rightarrow> message list \<Rightarrow> error + PlannerOutput) \<Rightarrow> string \<Rightarrow> PlannerState
     \<Rightarrow> error + PlannerState" where
  "planner_node planner_llm date state =
     (let cfg = PlannerState.config state;
          user_background = user_profile cfg;
          system_prompt = PLANNER_PROMPT (interests cfg) user_background date (max_tasks cfg)
      in case planner_llm (planner (models cfg)) [SystemMessage system_prompt] of
           Inl e \<Rightarrow> Inl e
         | Inr response \<Rightarrow>
             Inr (state\<lparr>PlannerState.ScoutTasks := PlannerOutput.ScoutTasks response\<rparr>))"

definition generate_scout_tasks :: "PlannerState \<Rightarrow> ScoutState list" where
  "generate_scout_tasks state =
     map (\<lambda>task. \<lparr>AssignedTask = task, ScoutState.config = Some (PlannerState.config state)\<rparr>)
         (PlannerState.ScoutTasks state)"

section \<open>Example runs\<close>

definition robotics_story :: NewsStory where
  "robotics_story =
     \<lparr>title = ''Humanoid robots enter warehouses'', summary = ''Pilot deployments begin.'',
      source = ''Example Wire'', url = ''https://example.org/robots'', score = 8,
      timestamp = ''2025-01-15'', topic = ''Robotics''\<rparr>"

definition ai_task :: ResearchTask where
  "ai_task = \<lparr>ResearchTask.topic = ''AI'', additional_info = ''Focus on new models''\<rparr>"

definition ai_scout_state :: ScoutState where
  "ai_scout_state = \<lparr>AssignedTask = ai_task, ScoutState.config = None\<rparr>"

definition quoted :: "string \<Rightarrow> string" where
  "quoted s = CHR 0x22 # s @ [CHR 0x22]"

text \<open>The text of a JSON object with no stories, and what \<^verbatim>\<open>json.loads\<close> makes of it.\<close>

definition no_stories_text :: string where
  "no_stories_text =
     ''{'' @ quoted ''NewsStories'' @ '': [], '' @ quoted ''Explanation'' @ '': ''
       @ quoted ''none'' @ ''}''"

definition no_stories_json :: json where
  "no_stories_json = JObj [(''NewsStories'', JArr []), (''Explanation'', JStr ''none'')]"

text \<open>
  An agent that asks for a tool on every step. In \<open>eager_env\<close> the structured call
  answers; in \<open>fallback_env\<close> it fails and the plain call answers with an empty list of
  stories.
\<close>

definition eager_env :: scout_env where
  "eager_env =
     \<lparr>bound_llm = (\<lambda>model_name msgs. Inr (''searching'', [ToolCall ''web_search'' ''robots''])),
      structured_llm = (\<lambda>model_name msgs.
         Inr \<lparr>ScoutOutput.NewsStories = [robotics_story], Explanation = ''one story''\<rparr>),
      plain_llm = (\<lambda>model_name msgs. Inl ModelCallError),
      tool_node = (\<lambda>msgs. Inr [ToolMessage ''results'']),
      fence_search = (\<lambda>s. None),
      json_loads = (\<lambda>s. None),
      str_to_int = decimal_int,
      no_tool_calls = ToFinal\<rparr>"

definition fallback_env :: scout_env where
  "fallback_env =
     \<lparr>bound_llm = (\<lambda>model_name msgs. Inr (''searching'', [ToolCall ''web_search'' ''robots''])),
      structured_llm = (\<lambda>model_name msgs. Inl ModelCallError),
      plain_llm = (\<lambda>model_name msgs. Inr no_stories_text),
      tool_node = (\<lambda>msgs. Inr [ToolMessage ''results'']),
      fence_search = (\<lambda>s. None),
      json_loads = (\<lambda>s. if s = no_stories_text then Some no_stories_json else None),
      str_to_int = decimal_int,
      no_tool_calls = ToFinal\<rparr>"

text \<open>
  A configuration file that names a scout model, and the configuration it loads to.
\<close>

definition example_file :: config_file where
  "example_file =
     Document \<lparr>raw_interests = Some [''AI'', ''Robotics''], raw_user_profile = None,
               raw_newsletter_settings = None, raw_content_settings = None,
               raw_output_settings = None,
               raw_model_settings = Some \<lparr>raw_planner = None, raw_scout = Some ''gpt-4o'',
                                          raw_evaluator = None, raw_writer = None\<rparr>,
               raw_max_tasks = None, raw_extra_keys = []\<rparr>"

definition example_config :: ThinkleConfig where
  "example_config =
     \<lparr>interests = [''AI'', ''Robotics''], user_profile = [],
      newsletter = \<lparr>tone = ''witty'', include_opinions = True, frequency = ''weekly'',
                    max_stories = 10\<rparr>,
      content = \<lparr>include_academic = True, include_reddit = True, include_youtube = True,
                 include_news = True,
                 reddit = \<lparr>min_upvotes = 100, max_age_hours = 48\<rparr>,
                 youtube = \<lparr>min_views = 10000, max_duration_minutes = 60\<rparr>\<rparr>,
      output_settings = \<lparr>format = ''markdown'', include_sources = True,
                         include_summary_stats = True\<rparr>,
      models = \<lparr>planner = ''gpt-5-mini'', scout = ''gpt-4o'', evaluator = ''gpt-5-mini'',
                writer = ''gpt-5-mini''\<rparr>,
      max_tasks = 1\<rparr>"

definition robotics_task :: ResearchTask where
  "robotics_task =
     \<lparr>ResearchTask.topic = ''Warehouse robot pilots'', additional_info = ''Who runs them?''\<rparr>"


definition two_task_llm :: "string \<Rightarrow> message list \<Rightarrow> error + EvaluatorOutput" where
  "two_task_llm model_name msgs =
     Inr \<lparr>EvaluatorOutput.NewsStories = [], InvestigatorTasks = [robotics_task, ai_task],
          Explanation = ''two more questions''\<rparr>"

definition two_task_planner :: "string \<Rightarrow> message list \<Rightarrow> error + PlannerOutput" where
  "two_task_planner model_name msgs = Inr \<lparr>PlannerOutput.ScoutTasks = [ai_task, robotics_task]\<rparr>"

definition evaluator_start :: EvaluatorState where
  "evaluator_start =
     \<lparr>EvaluatorState.config = example_config, EvaluatorState.NewsStories = [],
      InvestigatorTasks = [], followup_cycles = 0, EvaluatorState.messages = []\<rparr>"

definition planner_start :: PlannerState where
  "planner_start =
     \<lparr>PlannerState.config = example_config, ScoutTasks = [], PlannerState.NewsStories = [],
      Report = []\<rparr>"

text \<open>
  Model output that reaches the fallback of the final step, the structured answer having
  failed the schema: the text the plain call returns and the value \<^verbatim>\<open>json.loads\<close> makes of
  it. In the first the score of the story is the string \<^verbatim>\<open>"7"\<close>; in the second the story has
  no topic.
\<close>

definition story_json :: "json \<Rightarrow> json" where
  "story_json score_value =
     JObj [(''title'', JStr ''Robots''), (''summary'', JStr ''Pilots begin''),
           (''source'', JStr ''Wire''), (''url'', JStr ''https://example.org/r''),
           (''score'', score_value), (''timestamp'', JStr ''2025-01-15''),
           (''topic'', JStr ''Robotics'')]"

definition member_text :: "string \<Rightarrow> string \<Rightarrow> string" where
  "member_text k v = quoted k @ '': '' @ quoted v"

definition string_score_text :: string where
  "string_score_text =
     ''{'' @ quoted ''NewsStories'' @ '': [{''
       @ member_text ''title'' ''Robots'' @ '', ''
       @ member_text ''summary'' ''Pilots begin'' @ '', ''
       @ member_text ''source'' ''Wire'' @ '', ''
       @ member_text ''url'' ''https://example.org/r'' @ '', ''
       @ member_text ''score'' ''7'' @ '', ''
       @ member_text ''timestamp'' ''2025-01-15'' @ '', ''
       @ member_text ''topic'' ''Robotics'' @ ''}], ''
       @ member_text ''Explanation'' ''one story'' @ ''}''"

definition string_score_json :: json where
  "string_score_json =
     JObj [(''NewsStories'', JArr [story_json (JStr ''7'')]),
           (''Explanation'', JStr ''one story'')]"

definition string_score_env :: scout_env where
  "string_score_env =
     \<lparr>bound_llm = (\<lambda>model_name msgs. Inr (''searching'', [ToolCall ''web_search'' ''robots''])),
      structured_llm = (\<lambda>model_name msgs. Inl ValidationError),
      plain_llm = (\<lambda>model_name msgs. Inr string_score_text),
      tool_node = (\<lambda>msgs. Inr [ToolMessage ''results'']),
      fence_search = (\<lambda>s. None),
      json_loads = (\<lambda>s. if s = string_score_text then Some string_score_json else None),
      str_to_int = decimal_int,
      no_tool_calls = ToFinal\<rparr>"

definition no_topic_story_json :: json where
  "no_topic_story_json =
     JObj [(''title'', JStr ''Robots''), (''summary'', JStr ''Pilots begin''),
           (''source'', JStr ''Wire''), (''url'', JStr ''https://example.org/r''),
           (''score'', JInt 7), (''timestamp'', JStr ''2025-01-15'')]"

definition no_topic_text :: string where
  "no_topic_text =
     ''{'' @ quoted ''NewsStories'' @ '': [{''
       @ member_text ''title'' ''Robots'' @ '', ''
       @ member_text ''summary'' ''Pilots begin'' @ '', ''
       @ member_text ''source'' ''Wire'' @ '', ''
       @ member_text ''url'' ''https://example.org/r'' @ '', ''
       @ quoted ''score'' @ '': 7, ''
       @ member_text ''timestamp'' ''2025-01-15'' @ ''}], ''
       @ member_text ''Explanation'' ''one story'' @ ''}''"

definition no_topic_json :: json where
  "no_topic_json =
     JObj [(''NewsStories'', JArr [no_topic_story_json]), (''Explanation'', JStr ''one story'')]"

definition no_topic_env :: scout_env where
  "no_topic_env =
     \<lparr>bound_llm = (\<lambda>model_name msgs. Inr (''searching'', [ToolCall ''web_search'' ''robots''])),
      structured_llm = (\<lambda>model_name msgs. Inl ValidationError),
      plain_llm = (\<lambda>model_name msgs. Inr no_topic_text),
      tool_node = (\<lambda>msgs. Inr [ToolMessage ''results'']),
      fence_search = (\<lambda>s. None),
      json_loads = (\<lambda>s. if s = no_topic_text then Some no_topic_json else None),
      str_to_int = decimal_int,
      no_tool_calls = ToFinal\<rparr>"

definition fresh_agent_state :: AgentState where
  "fresh_agent_state =
     \<lparr>AgentState.messages = [], tool_iterations = 0, AgentState.NewsStories = []\<rparr>"

section \<open>Properties as predicates\<close>

text \<open>
  A story is one the model gave when it is among the stories of an answer of the
  structured call, or among the stories validated from an answer of the plain call.
\<close>

definition model_gave :: "scout_env \<Rightarrow> NewsStory \<Rightarrow> bool" where
  "model_gave env story =
     ((\<exists>m msgs parsed. structured_llm env m msgs = Inr parsed
          \<and> story \<in> set (ScoutOutput.NewsStories parsed))
      \<or> (\<exists>m msgs body data parsed. plain_llm env m msgs = Inr body
          \<and> json_loads env (isolate_json env body) = Some data
          \<and> ScoutOutput_model_validate (str_to_int env) data = Some parsed
          \<and> story \<in> set (ScoutOutput.NewsStories parsed)))"

text \<open>
  A JSON value is a defective story when it is not an object, when one of the six string
  fields is absent or is not a string, or when the score is absent or is a value that
  the validation of an integer rejects: null, an array, an object, a float that has a
  fractional part, is not finite or does not lie strictly between \<open>- 2 ^ 63\<close> and
  \<open>2 ^ 63\<close>, or a string that is not read as an integer.
\<close>

definition str_fields :: "string list" where
  "str_fields = [''title'', ''summary'', ''source'', ''url'', ''timestamp'', ''topic'']"

definition str_rejected :: "json \<Rightarrow> bool" where
  "str_rejected v = (case v of JStr s \<Rightarrow> False | _ \<Rightarrow> True)"

definition int_rejected :: "(string \<Rightarrow> int option) \<Rightarrow> json \<Rightarrow> bool" where
  "int_rejected str_int v =
     (case v of
        JInt n \<Rightarrow> False
      | JBool b \<Rightarrow> False
      | JFloat r \<Rightarrow> r \<noteq> of_int \<lfloor>r\<rfloor> \<or> r \<le> - (2 ^ 63) \<or> 2 ^ 63 \<le> r
      | JStr s \<Rightarrow> str_int s = None
      | _ \<Rightarrow> True)"

definition story_defect :: "(string \<Rightarrow> int option) \<Rightarrow> json \<Rightarrow> bool" where
  "story_defect str_int j =
     (case j of
        JObj kvs \<Rightarrow>
          list_ex (\<lambda>k. case map_of kvs k of None \<Rightarrow> True | Some v \<Rightarrow> str_rejected v) str_fields
          \<or> (case map_of kvs ''score'' of None \<Rightarrow> True | Some v \<Rightarrow> int_rejected str_int v)
      | _ \<Rightarrow> True)"

text \<open>
  A story is read from a JSON value when the value is an object that holds all seven
  members, the six string fields of the story are the strings of the members, and the
  score of the story is the integer that the member \<^verbatim>\<open>score\<close> is converted to.
\<close>

definition story_reads :: "(string \<Rightarrow> int option) \<Rightarrow> json \<Rightarrow> NewsStory \<Rightarrow> bool" where
  "story_reads str_int j story =
     (case j of
        JObj kvs \<Rightarrow>
          map_of kvs ''title'' = Some (JStr (title story))
          \<and> map_of kvs ''summary'' = Some (JStr (summary story))
          \<and> map_of kvs ''source'' = Some (JStr (source story))
          \<and> map_of kvs ''url'' = Some (JStr (url story))
          \<and> (case map_of kvs ''score'' of
                None \<Rightarrow> False
              | Some v \<Rightarrow> validate_int str_int v = Some (score story))
          \<and> map_of kvs ''timestamp'' = Some (JStr (timestamp story))
          \<and> map_of kvs ''topic'' = Some (JStr (NewsStory.topic story))
      | _ \<Rightarrow> False)"

section \<open>Properties of the scout loop\<close>

lemma final_step_trace:
  "final_step env m sys s = (tr, r) \<Longrightarrow> tr = [StructuredCall] \<or> tr = [StructuredCall, PlainCall]"
  by (auto simp: final_step_def Let_def split: sum.splits option.splits)

lemma final_node_trace:
  "final_node env m sys s = (tr, r) \<Longrightarrow> tr = [StructuredCall] \<or> tr = [StructuredCall, PlainCall]"
  by (auto simp: final_node_def split: prod.splits sum.splits dest: final_step_trace)

text \<open>
  From any state, the agent is called at most once per remaining iteration (and once at
  least), and the final step runs at most once, with one structured call and at most one
  plain call.
\<close>

lemma scout_graph_bounds:
  "scout_graph env m sys s = (tr, r) \<Longrightarrow>
     count_list tr AgentCall \<le> max 1 (nat (3 - tool_iterations s))
     \<and> count_list tr StructuredCall \<le> 1
     \<and> count_list tr PlainCall \<le> count_list tr StructuredCall"
proof (induction env m sys s arbitrary: tr r rule: scout_graph.induct)
  case (1 env m sys s)
  show ?case
  proof (cases "agent_step env m sys s")
    case (Inl e)
    with "1.prems" show ?thesis by (auto simp: scout_graph.simps)
  next
    case (Inr ai)
    obtain reply calls where ai: "ai = (reply, calls)" by (cases ai)
    define s1 where "s1 = s\<lparr>AgentState.messages := AgentState.messages s @ [AIMessage reply calls]\<rparr>"
    show ?thesis
    proof (cases "calls = []")
      case True
      show ?thesis
      proof (cases "no_tool_calls env")
        case ToEnd
        with "1.prems" Inr ai True show ?thesis by (auto simp: scout_graph.simps)
      next
        case ToFinal
        with "1.prems" Inr ai True obtain tr' where
          f: "final_node env m sys s1 = (tr', r)" and tr: "tr = AgentCall # tr'"
          by (auto simp: scout_graph.simps s1_def split: prod.splits)
        from final_node_trace[OF f] tr show ?thesis by auto
      qed
    next
      case False
      show ?thesis
      proof (cases "tool_node env (AgentState.messages s1)")
        case (Inl e)
        with "1.prems" Inr ai False show ?thesis by (auto simp: scout_graph.simps s1_def)
      next
        case results: (Inr results)
        define s2 where "s2 = after_tools (s1\<lparr>AgentState.messages := AgentState.messages s1 @ results\<rparr>)"
        have it: "tool_iterations s2 = tool_iterations s + 1"
          by (simp add: s2_def s1_def after_tools_def)
        show ?thesis
        proof (cases "tool_iterations s2 < 3")
          case True
          with "1.prems" Inr ai False results obtain tr' where
            g: "scout_graph env m sys s2 = (tr', r)" and tr: "tr = AgentCall # ToolsRun # tr'"
            by (auto simp: scout_graph.simps[of env m sys s] s1_def s2_def Let_def
                     split: prod.splits)
          have "count_list tr' AgentCall \<le> max 1 (nat (3 - tool_iterations s2))
                \<and> count_list tr' StructuredCall \<le> 1
                \<and> count_list tr' PlainCall \<le> count_list tr' StructuredCall"
            using "1.IH"[OF Inr ai[symmetric] s1_def False results s2_def True g] .
          with tr it True show ?thesis by auto
        next
          case nlt: False
          with "1.prems" Inr ai False results obtain tr' where
            f: "final_node env m sys s2 = (tr', r)" and tr: "tr = AgentCall # ToolsRun # tr'"
            by (auto simp: scout_graph.simps[of env m sys s] s1_def s2_def Let_def
                     split: prod.splits)
          from final_node_trace[OF f] tr show ?thesis by auto
        qed
      qed
    qed
  qed
qed

text \<open>
  When the agent asks for a tool on every step and the tool node answers, the agent is
  called once per remaining iteration and the final step runs.
\<close>

lemma scout_graph_eager:
  "scout_graph env m sys s = (tr, r) \<Longrightarrow> tool_iterations s < 3 \<Longrightarrow>
   \<forall>m ms. \<exists>reply calls. bound_llm env m ms = Inr (reply, calls) \<and> calls \<noteq> [] \<Longrightarrow>
   \<forall>ms. \<exists>results. tool_node env ms = Inr results \<Longrightarrow>
     count_list tr AgentCall = nat (3 - tool_iterations s) \<and> count_list tr StructuredCall = 1"
proof (induction env m sys s arbitrary: tr r rule: scout_graph.induct)
  case (1 env m sys s)
  from "1.prems"(3) obtain reply calls where
    a: "agent_step env m sys s = Inr (reply, calls)" and c: "calls \<noteq> []"
    unfolding agent_step_def by blast
  define s1 where "s1 = s\<lparr>AgentState.messages := AgentState.messages s @ [AIMessage reply calls]\<rparr>"
  from "1.prems"(4) obtain results where t: "tool_node env (AgentState.messages s1) = Inr results"
    by blast
  define s2 where "s2 = after_tools (s1\<lparr>AgentState.messages := AgentState.messages s1 @ results\<rparr>)"
  have it: "tool_iterations s2 = tool_iterations s + 1"
    by (simp add: s2_def s1_def after_tools_def)
  show ?case
  proof (cases "tool_iterations s2 < 3")
    case True
    with "1.prems"(1) a c t obtain tr' where
      g: "scout_graph env m sys s2 = (tr', r)" and tr: "tr = AgentCall # ToolsRun # tr'"
      by (auto simp: scout_graph.simps[of env m sys s] s1_def s2_def Let_def split: prod.splits)
    have "count_list tr' AgentCall = nat (3 - tool_iterations s2)
          \<and> count_list tr' StructuredCall = 1"
      using "1.IH"[OF a refl s1_def c t s2_def True g True "1.prems"(3) "1.prems"(4)] .
    with tr it True show ?thesis by auto
  next
    case False
    with "1.prems"(1) a c t obtain tr' where
      f: "final_node env m sys s2 = (tr', r)" and tr: "tr = AgentCall # ToolsRun # tr'"
      by (auto simp: scout_graph.simps[of env m sys s] s1_def s2_def Let_def split: prod.splits)
    from final_node_trace[OF f] tr it False "1.prems"(2) show ?thesis by auto
  qed
qed

text \<open>
  C1, as the code has it. Whatever the agent and the tools answer, a run of the scout
  makes at most three agent calls (the cap; so at most cap + 1), runs the final step at
  most once, and the final step makes one structured call followed, only when that call
  fails, by one plain call: at most five model calls in all. When the agent asks for a
  tool on every step and the tool node answers, there are exactly three agent calls and
  the final step runs, so that a call without tools is made.
\<close>

theorem scout_loop_budget:
  assumes "scout_node env state = (tr, r)"
  shows "count_list tr AgentCall \<le> 3
         \<and> count_list tr StructuredCall \<le> 1
         \<and> count_list tr PlainCall \<le> count_list tr StructuredCall
         \<and> model_invocations tr \<le> 5
         \<and> ((\<forall>m ms. \<exists>reply calls. bound_llm env m ms = Inr (reply, calls) \<and> calls \<noteq> [])
              \<and> (\<forall>ms. \<exists>results. tool_node env ms = Inr results)
            \<longrightarrow> count_list tr AgentCall = 3 \<and> count_list tr StructuredCall = 1)"
proof -
  define s0 where "s0 = \<lparr>AgentState.messages = [], tool_iterations = 0, AgentState.NewsStories = []\<rparr>"
  from assms obtain m sys where run: "scout_graph env m sys s0 = (tr, r)"
    by (simp add: scout_node_def s0_def Let_def)
  have s0: "tool_iterations s0 = 0" by (simp add: s0_def)
  from scout_graph_bounds[OF run] s0
  have b: "count_list tr AgentCall \<le> 3" "count_list tr StructuredCall \<le> 1"
          "count_list tr PlainCall \<le> count_list tr StructuredCall"
    by simp_all
  then have total: "model_invocations tr \<le> 5" by (simp add: model_invocations_def)
  have eager: "count_list tr AgentCall = 3 \<and> count_list tr StructuredCall = 1"
    if "\<forall>m ms. \<exists>reply calls. bound_llm env m ms = Inr (reply, calls) \<and> calls \<noteq> []"
       "\<forall>ms. \<exists>results. tool_node env ms = Inr results"
    using scout_graph_eager[OF run _ that] s0 by simp
  from b total eager show ?thesis by blast
qed

theorem scout_loop_budget_witness:
  "count_list (fst (scout_node eager_env ai_scout_state)) AgentCall = 3
   \<and> count_list (fst (scout_node eager_env ai_scout_state)) StructuredCall = 1
   \<and> model_invocations (fst (scout_node eager_env ai_scout_state)) \<le> 5"
proof -
  have run: "scout_node eager_env ai_scout_state =
               (fst (scout_node eager_env ai_scout_state), snd (scout_node eager_env ai_scout_state))"
    by simp
  have llm: "\<forall>m ms. \<exists>reply calls. bound_llm eager_env m ms = Inr (reply, calls) \<and> calls \<noteq> []"
    by (simp add: eager_env_def)
  have tools: "\<forall>ms. \<exists>results. tool_node eager_env ms = Inr results"
    by (simp add: eager_env_def)
  from scout_loop_budget[OF run] llm tools show ?thesis by blast
qed

text \<open>
  C1 as stated fails: with an agent that asks for a tool on every step and a structured
  call that fails, the run makes three agent calls, the structured call and the plain
  call of the fallback, which is more than four model calls.
\<close>

theorem scout_loop_five_model_calls:
  "fst (scout_node fallback_env ai_scout_state) =
     [AgentCall, ToolsRun, AgentCall, ToolsRun, AgentCall, ToolsRun, StructuredCall, PlainCall]
   \<and> \<not> model_invocations (fst (scout_node fallback_env ai_scout_state)) \<le> 4"
  by code_simp

section \<open>Properties of the evaluator loop\<close>

lemma example_file_loads: "load_config example_file = Inr example_config"
  by code_simp







section \<open>Where the stories of a scout come from\<close>

lemma final_step_stories:
  "final_step env m sys s = (tr, Inr stories) \<Longrightarrow> story \<in> set stories \<Longrightarrow> model_gave env story"
  unfolding final_step_def Let_def model_gave_def
  by (auto split: sum.splits option.splits)

lemma final_node_stories:
  "final_node env m sys s = (tr, Inr a) \<Longrightarrow> story \<in> set (AgentState.NewsStories a) \<Longrightarrow>
     story \<in> set (AgentState.NewsStories s) \<or> model_gave env story"
  by (auto simp: final_node_def split: prod.splits sum.splits dest: final_step_stories)

lemma scout_graph_stories:
  "scout_graph env m sys s = (tr, Inr a) \<Longrightarrow> story \<in> set (AgentState.NewsStories a) \<Longrightarrow>
     story \<in> set (AgentState.NewsStories s) \<or> model_gave env story"
proof (induction env m sys s arbitrary: tr rule: scout_graph.induct)
  case (1 env m sys s)
  from "1.prems"(1) obtain reply calls where
    a: "agent_step env m sys s = Inr (reply, calls)"
    by (cases "agent_step env m sys s") (auto simp: scout_graph.simps[of env m sys s])
  define s1 where "s1 = s\<lparr>AgentState.messages := AgentState.messages s @ [AIMessage reply calls]\<rparr>"
  have n1: "AgentState.NewsStories s1 = AgentState.NewsStories s" by (simp add: s1_def)
  show ?case
  proof (cases "calls = []")
    case True
    show ?thesis
    proof (cases "no_tool_calls env")
      case ToEnd
      with "1.prems" a True show ?thesis by (auto simp: scout_graph.simps[of env m sys s])
    next
      case ToFinal
      with "1.prems"(1) a True obtain tr' where
        f: "final_node env m sys s1 = (tr', Inr a)"
        by (auto simp: scout_graph.simps[of env m sys s] s1_def split: prod.splits)
      from final_node_stories[OF f "1.prems"(2)] n1 show ?thesis by simp
    qed
  next
    case False
    from "1.prems"(1) a False obtain results where
      t: "tool_node env (AgentState.messages s1) = Inr results"
      by (cases "tool_node env (AgentState.messages s1)")
         (auto simp: scout_graph.simps[of env m sys s] s1_def)
    define s2 where
      "s2 = after_tools (s1\<lparr>AgentState.messages := AgentState.messages s1 @ results\<rparr>)"
    have n2: "AgentState.NewsStories s2 = AgentState.NewsStories s"
      by (simp add: s2_def s1_def after_tools_def)
    show ?thesis
    proof (cases "tool_iterations s2 < 3")
      case True
      with "1.prems"(1) a False t obtain tr' where
        g: "scout_graph env m sys s2 = (tr', Inr a)"
        by (auto simp: scout_graph.simps[of env m sys s] s1_def s2_def Let_def
                 split: prod.splits)
      from "1.IH"[OF a refl s1_def False t s2_def True g "1.prems"(2)] n2
      show ?thesis by simp
    next
      case nlt: False
      with "1.prems"(1) a False t obtain tr' where
        f: "final_node env m sys s2 = (tr', Inr a)"
        by (auto simp: scout_graph.simps[of env m sys s] s1_def s2_def Let_def
                 split: prod.splits)
      from final_node_stories[OF f "1.prems"(2)] n2 show ?thesis by simp
    qed
  qed
qed

text \<open>
  C3, as the code has it. Every story a scout returns is a story the model gave, as the
  model gave it: the final step hands on the stories of the structured answer, or the
  stories validated from the plain answer, and no step compares the topic of a story
  with the topic of the task or sets it.
\<close>

theorem scout_returns_model_stories:
  assumes "scout_node env state = (tr, Inr a)" and "story \<in> set (AgentState.NewsStories a)"
  shows "model_gave env story"
proof -
  from assms(1) have run:
    "scout_graph env (scout_model_name state)
       (SCOUT_PROMPT (ResearchTask.topic (AssignedTask state)) (additional_info (AssignedTask state)))
       \<lparr>AgentState.messages = [], tool_iterations = 0, AgentState.NewsStories = []\<rparr> = (tr, Inr a)"
    by (simp add: scout_node_def Let_def)
  from scout_graph_stories[OF run assms(2)] show ?thesis by simp
qed

theorem scout_returns_model_stories_witness:
  "model_gave eager_env robotics_story \<and> NewsStory.topic robotics_story = ''Robotics''"
proof -
  have run: "scout_node eager_env ai_scout_state =
               (fst (scout_node eager_env ai_scout_state),
                Inr (projr (snd (scout_node eager_env ai_scout_state))))"
    by code_simp
  have mem: "robotics_story
               \<in> set (AgentState.NewsStories (projr (snd (scout_node eager_env ai_scout_state))))"
    by code_simp
  have "NewsStory.topic robotics_story = ''Robotics''" by (simp add: robotics_story_def)
  with scout_returns_model_stories[OF run mem] show ?thesis by simp
qed

text \<open>
  C3 as stated fails: a scout on the task with topic AI, whose model answers with a story
  of topic Robotics, returns that story with topic Robotics.
\<close>

theorem scout_returns_other_topic:
  "map_sum id (\<lambda>a. map NewsStory.topic (AgentState.NewsStories a))
       (snd (scout_node eager_env ai_scout_state)) = Inr [''Robotics'']
   \<and> ResearchTask.topic (AssignedTask ai_scout_state) = ''AI''"
  by code_simp

section \<open>The follow-up tasks of the evaluator\<close>

text \<open>
  C4, as the code has it. After an evaluation pass the state holds the list of tasks the
  model proposed, whole; when the list is not empty and \<open>followup_cycles < 1\<close>, the router
  sends one scout for each task of the list, in order.
\<close>

theorem evaluator_keeps_every_task:
  assumes "llm_node evaluator_llm s = Inr s1"
      and "InvestigatorTasks s1 \<noteq> []" and "followup_cycles s < 1"
  shows "router_node s1 =
           Sends (map (\<lambda>t. \<lparr>AssignedTask = t, ScoutState.config = None\<rparr>) (InvestigatorTasks s1))
         \<and> (\<exists>m ms out. evaluator_llm m ms = Inr out
               \<and> InvestigatorTasks s1 = EvaluatorOutput.InvestigatorTasks out)"
proof -
  from assms(1) obtain m ms out where call: "evaluator_llm m ms = Inr out"
    and s1: "s1 = s\<lparr>EvaluatorState.NewsStories :=
                        EvaluatorState.NewsStories s @ EvaluatorOutput.NewsStories out,
                      InvestigatorTasks := EvaluatorOutput.InvestigatorTasks out\<rparr>"
    by (auto simp: llm_node_def Let_def split: sum.splits)
  from s1 have tasks: "InvestigatorTasks s1 = EvaluatorOutput.InvestigatorTasks out"
    and cycles: "followup_cycles s1 = followup_cycles s" by simp_all
  from assms(2,3) cycles have
    "router_node s1 =
       Sends (map (\<lambda>t. \<lparr>AssignedTask = t, ScoutState.config = None\<rparr>) (InvestigatorTasks s1))"
    by (simp add: router_node_def)
  with call tasks show ?thesis by blast
qed

theorem evaluator_keeps_every_task_witness:
  "router_node (evaluator_start\<lparr>InvestigatorTasks := [robotics_task, ai_task]\<rparr>) =
     Sends [\<lparr>AssignedTask = robotics_task, ScoutState.config = None\<rparr>,
            \<lparr>AssignedTask = ai_task, ScoutState.config = None\<rparr>]"
proof -
  have pass: "llm_node two_task_llm evaluator_start =
                Inr (evaluator_start\<lparr>InvestigatorTasks := [robotics_task, ai_task]\<rparr>)"
    by (simp add: llm_node_def two_task_llm_def evaluator_start_def Let_def)
  have tasks: "InvestigatorTasks (evaluator_start\<lparr>InvestigatorTasks := [robotics_task, ai_task]\<rparr>) \<noteq> []"
    by simp
  have cycles: "followup_cycles evaluator_start < 1"
    by (simp add: evaluator_start_def)
  from evaluator_keeps_every_task[OF pass tasks cycles] show ?thesis by simp
qed

text \<open>
  C4 as stated fails: against a model that proposes two tasks on every pass, the state
  holds two tasks after each pass, and the one scouting round sends two scouts.
\<close>

theorem evaluator_holds_two_tasks:
  "map (\<lambda>s. length (InvestigatorTasks s))
       (states_of (fst (evaluator_graph eager_env two_task_llm evaluator_start))) = [2, 0, 2]
   \<and> scouting_rounds (fst (evaluator_graph eager_env two_task_llm evaluator_start)) =
       [[\<lparr>AssignedTask = robotics_task, ScoutState.config = None\<rparr>,
         \<lparr>AssignedTask = ai_task, ScoutState.config = None\<rparr>]]"
  by code_simp

section \<open>The tasks of the planner\<close>

text \<open>
  C5, as the code has it. The planner gives \<open>max_tasks\<close> to the model in the prompt and
  emits the list of tasks the model returned, whole; the orchestrator sends one scout for
  each of them.
\<close>

theorem planner_returns_model_tasks:
  assumes "planner_node planner_llm date state = Inr state'"
  shows "\<exists>response.
           planner_llm (planner (models (PlannerState.config state)))
             [SystemMessage (PLANNER_PROMPT (interests (PlannerState.config state))
                (user_profile (PlannerState.config state)) date
                (max_tasks (PlannerState.config state)))] = Inr response
           \<and> PlannerState.ScoutTasks state' = PlannerOutput.ScoutTasks response
           \<and> generate_scout_tasks state' =
               map (\<lambda>task. \<lparr>AssignedTask = task,
                             ScoutState.config = Some (PlannerState.config state)\<rparr>)
                 (PlannerOutput.ScoutTasks response)"
  using assms
  by (auto simp: planner_node_def generate_scout_tasks_def Let_def split: sum.splits)

theorem planner_returns_model_tasks_witness:
  "\<exists>response. two_task_planner ''gpt-5-mini''
        [SystemMessage (PLANNER_PROMPT [''AI'', ''Robotics''] [] ''2025-01-15'' 1)] = Inr response
     \<and> PlannerOutput.ScoutTasks response = [ai_task, robotics_task]"
proof -
  have run: "planner_node two_task_planner ''2025-01-15'' planner_start =
               Inr (planner_start\<lparr>ScoutTasks := [ai_task, robotics_task]\<rparr>)"
    by (simp add: planner_node_def two_task_planner_def Let_def)
  from planner_returns_model_tasks[OF run] obtain response where
    "two_task_planner (planner (models (PlannerState.config planner_start)))
       [SystemMessage (PLANNER_PROMPT (interests (PlannerState.config planner_start))
          (user_profile (PlannerState.config planner_start)) ''2025-01-15''
          (max_tasks (PlannerState.config planner_start)))] = Inr response"
    and "PlannerState.ScoutTasks (planner_start\<lparr>ScoutTasks := [ai_task, robotics_task]\<rparr>) =
           PlannerOutput.ScoutTasks response"
    by blast
  then have
    "two_task_planner ''gpt-5-mini''
        [SystemMessage (PLANNER_PROMPT [''AI'', ''Robotics''] [] ''2025-01-15'' 1)] = Inr response
     \<and> PlannerOutput.ScoutTasks response = [ai_task, robotics_task]"
    by (simp add: planner_start_def example_config_def)
  then show ?thesis by blast
qed

text \<open>
  C5 as stated fails: with \<open>max_tasks = 1\<close> and a model that returns two tasks, the planner
  emits both.
\<close>

theorem planner_exceeds_max_tasks:
  "map_sum id PlannerState.ScoutTasks
       (planner_node two_task_planner ''2025-01-15'' planner_start) = Inr [ai_task, robotics_task]
   \<and> max_tasks (PlannerState.config planner_start) = 1"
  by code_simp

section \<open>The interests of a loaded configuration\<close>

lemma interests_scenario:
  "map_sum id interests (load_config (interests_only [''AI'', ''ai'', ''Robotics'']))
     = Inr [''AI'', ''Robotics'']"
  by code_simp

text \<open>
  C6 fails on the code: \<^verbatim>\<open>validate_interests\<close> looks an entry up in \<open>seen\<close> by its lower-cased
  text before stripping, and keeps the stripped text. The interests \<^verbatim>\<open>["AI", " AI"]\<close> load to
  \<^verbatim>\<open>["AI", "AI"]\<close>: two equal entries.
\<close>

theorem padded_duplicate_survives_load:
  "map_sum id interests (load_config (interests_only [''AI'', '' AI''])) = Inr [''AI'', ''AI'']"
  by code_simp

text \<open>
  C7 fails on the code, through the same defect: the configuration loaded from the interests
  \<^verbatim>\<open>["AI", " AI"]\<close> has the interests \<^verbatim>\<open>["AI", "AI"]\<close>; saved and loaded again it has the interests
  \<^verbatim>\<open>["AI"]\<close>.
\<close>

theorem roundtrip_loses_duplicate:
  "(case load_config (interests_only [''AI'', '' AI'']) of
      Inl e \<Rightarrow> False
    | Inr c \<Rightarrow> interests c = [''AI'', ''AI'']
               \<and> map_sum id interests (load_config (save_config c)) = Inr [''AI'']
               \<and> load_config (save_config c) \<noteq> Inr c)"
  by code_simp

section \<open>The score of a story\<close>

text \<open>
  C8, as the code has it. \<^verbatim>\<open>NewsStory\<close> declares \<^verbatim>\<open>score: int\<close> with no bound: an object with
  the six string fields and an integer score validates to the story with that score,
  whatever the integer.
\<close>

theorem story_score_unbounded:
  assumes "map_of kvs ''title'' = Some (JStr v_title)"
      and "map_of kvs ''summary'' = Some (JStr v_summary)"
      and "map_of kvs ''source'' = Some (JStr v_source)"
      and "map_of kvs ''url'' = Some (JStr v_url)"
      and "map_of kvs ''score'' = Some (JInt n)"
      and "map_of kvs ''timestamp'' = Some (JStr v_timestamp)"
      and "map_of kvs ''topic'' = Some (JStr v_topic)"
  shows "NewsStory_validate str_int (JObj kvs) =
           Some \<lparr>title = v_title, summary = v_summary, source = v_source, url = v_url,
                 score = n, timestamp = v_timestamp, topic = v_topic\<rparr>"
  using assms by (simp add: field_def)

theorem story_score_unbounded_witness:
  "NewsStory_validate decimal_int (story_json (JInt 0)) =
     Some \<lparr>title = ''Robots'', summary = ''Pilots begin'', source = ''Wire'',
           url = ''https://example.org/r'', score = 0, timestamp = ''2025-01-15'',
           topic = ''Robotics''\<rparr>"
  unfolding story_json_def
  by (rule story_score_unbounded) simp_all

text \<open>C8 as stated fails: a story with the score 99 validates.\<close>

theorem story_with_score_99_validates:
  "NewsStory_validate decimal_int (story_json (JInt 99)) =
     Some \<lparr>title = ''Robots'', summary = ''Pilots begin'', source = ''Wire'',
           url = ''https://example.org/r'', score = 99, timestamp = ''2025-01-15'',
           topic = ''Robotics''\<rparr>"
  by code_simp

section \<open>The configuration of the scouts\<close>

text \<open>
  C9 fails on the code. The orchestrator sends each scout the configuration, and the scout
  reads its model name there. The router of the evaluator sends only the task: with the
  scout model \<^verbatim>\<open>gpt-4o\<close> configured, a follow-up scout runs on the default \<^verbatim>\<open>gpt-5-mini\<close>.
\<close>

theorem followup_scout_ignores_configured_model:
  "scout (models (EvaluatorState.config evaluator_start)) = ''gpt-4o''
   \<and> router_node (evaluator_start\<lparr>InvestigatorTasks := [robotics_task]\<rparr>) =
       Sends [\<lparr>AssignedTask = robotics_task, ScoutState.config = None\<rparr>]
   \<and> scout_model_name \<lparr>AssignedTask = robotics_task, ScoutState.config = None\<rparr> = ''gpt-5-mini''
   \<and> map scout_model_name
        (generate_scout_tasks (planner_start\<lparr>PlannerState.ScoutTasks := [ai_task]\<rparr>)) = [''gpt-4o'']"
  by code_simp

section \<open>Stories that omit or mistype a field\<close>

lemma validate_str_None: "validate_str v = None \<longleftrightarrow> str_rejected v"
  by (cases v) (simp_all add: str_rejected_def)

lemma validate_int_None: "validate_int p v = None \<longleftrightarrow> int_rejected p v"
  by (cases v) (auto simp: int_rejected_def)

text \<open>
  The range applies to floats only: the float \<open>2 ^ 63\<close> is rejected, the integer \<open>2 ^ 63\<close>
  is taken.
\<close>

lemma validate_int_examples:
  "validate_int p (JFloat 7) = Some 7"
  "validate_int p (JFloat (2 ^ 63)) = None"
  "validate_int p (JFloat (- (2 ^ 63))) = None"
  "validate_int p (JInt (2 ^ 63)) = Some (2 ^ 63)"
  "validate_int p (JBool True) = Some 1"
  "validate_int p JNull = None"
  by simp_all

lemma validate_int_fraction: "validate_int decimal_int (JFloat (15 / 2)) = None"
  by code_simp

lemma field_None:
  "field kvs k f = None \<longleftrightarrow> (case map_of kvs k of None \<Rightarrow> True | Some v \<Rightarrow> f v = None)"
  by (simp add: field_def split: option.splits)

lemma validate_str_Some: "validate_str v = Some x \<longleftrightarrow> v = JStr x"
  by (cases v) auto

lemma field_Some:
  "field kvs k f = Some x \<longleftrightarrow> (\<exists>v. map_of kvs k = Some v \<and> f v = Some x)"
  by (simp add: field_def split: option.splits)

text \<open>Validation fails on the defective stories and on no other value.\<close>

lemma NewsStory_validate_None: "NewsStory_validate p j = None \<longleftrightarrow> story_defect p j"
proof (cases j)
  case (JObj kvs)
  then show ?thesis
    by (auto simp: story_defect_def str_fields_def field_None validate_str_None validate_int_None
                   Option.bind_eq_None_conv split: option.splits)
qed (simp_all add: story_defect_def)

text \<open>Validation gives a story exactly when the story is read from the value.\<close>

lemma NewsStory_validate_Some: "NewsStory_validate p j = Some story \<longleftrightarrow> story_reads p j story"
proof (cases j)
  case (JObj kvs)
  show ?thesis
  proof
    assume "NewsStory_validate p j = Some story"
    with JObj show "story_reads p j story"
      by (auto simp: story_reads_def Option.bind_eq_Some_conv validate_str_Some field_Some)
  next
    assume "story_reads p j story"
    with JObj show "NewsStory_validate p j = Some story"
      by (auto simp: story_reads_def field_def split: option.splits)
  qed
qed (simp_all add: story_reads_def)

lemma those_None: "x \<in> set xs \<Longrightarrow> v x = None \<Longrightarrow> those (map v xs) = None"
  by (induction xs) (auto split: option.splits)

lemma those_Some: "those (map v xs) = Some ys \<longleftrightarrow> list_all2 (\<lambda>x y. v x = Some y) xs ys"
proof (induction xs arbitrary: ys)
  case Nil
  then show ?case by auto
next
  case (Cons x xs)
  then show ?case by (cases ys) (auto split: option.splits)
qed

lemma stories_validate_Some:
  "those (map (NewsStory_validate p) items) = Some stories
     \<longleftrightarrow> list_all2 (story_reads p) items stories"
  by (simp add: those_Some NewsStory_validate_Some)

lemma stories_validate_None:
  "those (map (NewsStory_validate p) items) = None \<longleftrightarrow> list_ex (story_defect p) items"
proof (induction items)
  case Nil
  then show ?case by simp
next
  case (Cons j items)
  then show ?case
    by (auto simp: NewsStory_validate_None[symmetric] split: option.splits)
qed

lemma final_step_direct:
  "structured_llm env m (SystemMessage sys # AgentState.messages s) = Inr parsed \<Longrightarrow>
     final_step env m sys s = ([StructuredCall], Inr (ScoutOutput.NewsStories parsed))"
  by (simp add: final_step_def Let_def)

lemma final_step_rejects_defect:
  assumes "structured_llm env m (SystemMessage sys # AgentState.messages s) = Inl exn"
      and "plain_llm env m (SystemMessage sys # AgentState.messages s) = Inr body"
      and "json_loads env (isolate_json env body) = Some (JObj kvs)"
      and "map_of kvs ''NewsStories'' = Some (JArr items)"
      and "list_ex (story_defect (str_to_int env)) items"
  shows "final_step env m sys s =
           ([StructuredCall, PlainCall], Inl (ValueError ''Scout output failed validation''))"
proof -
  from assms(5) have "those (map (NewsStory_validate (str_to_int env)) items) = None"
    by (simp add: stories_validate_None)
  with assms(4) have "ScoutOutput_model_validate (str_to_int env) (JObj kvs) = None"
    by (simp add: field_def)
  with assms(1-3) show ?thesis by (simp add: final_step_def Let_def)
qed

lemma final_step_accepts_whole:
  assumes "structured_llm env m (SystemMessage sys # AgentState.messages s) = Inl exn"
      and "plain_llm env m (SystemMessage sys # AgentState.messages s) = Inr body"
      and "json_loads env (isolate_json env body) = Some (JObj kvs)"
      and "map_of kvs ''NewsStories'' = Some (JArr items)"
      and "\<not> list_ex (story_defect (str_to_int env)) items"
      and "map_of kvs ''Explanation'' = Some (JStr e)"
  shows "\<exists>stories. final_step env m sys s = ([StructuredCall, PlainCall], Inr stories)
           \<and> list_all2 (story_reads (str_to_int env)) items stories"
proof -
  from assms(5) obtain stories where
    st: "those (map (NewsStory_validate (str_to_int env)) items) = Some stories"
    by (cases "those (map (NewsStory_validate (str_to_int env)) items)")
       (simp_all add: stories_validate_None)
  with assms(4,6) have
    "ScoutOutput_model_validate (str_to_int env) (JObj kvs) =
       Some \<lparr>ScoutOutput.NewsStories = stories, Explanation = e\<rparr>"
    by (simp add: field_def)
  with assms(1-3) have "final_step env m sys s = ([StructuredCall, PlainCall], Inr stories)"
    by (simp add: final_step_def Let_def)
  with st show ?thesis by (auto simp: stories_validate_Some)
qed

lemma model_validate_Some:
  assumes "ScoutOutput_model_validate p data = Some parsed"
  shows "\<exists>kvs items. data = JObj kvs \<and> map_of kvs ''NewsStories'' = Some (JArr items)
           \<and> list_all2 (story_reads p) items (ScoutOutput.NewsStories parsed)"
proof (cases data)
  case (JObj kvs)
  with assms obtain v stories where v: "map_of kvs ''NewsStories'' = Some v"
    and l: "validate_list (NewsStory_validate p) v = Some stories"
    and n: "ScoutOutput.NewsStories parsed = stories"
    by (auto simp: Option.bind_eq_Some_conv field_def split: option.splits)
  from l obtain items where "v = JArr items"
    and "those (map (NewsStory_validate p) items) = Some stories"
    by (cases v) simp_all
  with v n JObj show ?thesis by (auto simp: stories_validate_Some)
qed (use assms in simp_all)

lemma final_step_origin:
  assumes "snd (final_step env m sys s) = Inr stories"
  shows "(\<exists>parsed. structured_llm env m (SystemMessage sys # AgentState.messages s) = Inr parsed
            \<and> stories = ScoutOutput.NewsStories parsed)
         \<or> (\<exists>exn body kvs items.
              structured_llm env m (SystemMessage sys # AgentState.messages s) = Inl exn
              \<and> plain_llm env m (SystemMessage sys # AgentState.messages s) = Inr body
              \<and> json_loads env (isolate_json env body) = Some (JObj kvs)
              \<and> map_of kvs ''NewsStories'' = Some (JArr items)
              \<and> list_all2 (story_reads (str_to_int env)) items stories)"
proof (cases "structured_llm env m (SystemMessage sys # AgentState.messages s)")
  case (Inr parsed)
  with assms show ?thesis by (simp add: final_step_def Let_def)
next
  case (Inl exn)
  with assms obtain body data parsed where
    b: "plain_llm env m (SystemMessage sys # AgentState.messages s) = Inr body"
    and d: "json_loads env (isolate_json env body) = Some data"
    and v: "ScoutOutput_model_validate (str_to_int env) data = Some parsed"
    and n: "stories = ScoutOutput.NewsStories parsed"
    by (auto simp: final_step_def Let_def split: sum.splits option.splits)
  from model_validate_Some[OF v] obtain kvs items where
    "data = JObj kvs" "map_of kvs ''NewsStories'' = Some (JArr items)"
    "list_all2 (story_reads (str_to_int env)) items (ScoutOutput.NewsStories parsed)"
    by blast
  with Inl b d n show ?thesis by blast
qed

text \<open>
  C10, as the code has it. (1) A structured answer is a \<^verbatim>\<open>ScoutOutput\<close>, and the final step
  returns its stories. (2) When the structured call fails, the final step does not raise:
  it makes the plain call. If the list of stories of that answer holds a defective story,
  the final step raises the validation error and returns no story. (3) If it holds none,
  and the answer has its explanation, the final step returns the stories read from the
  list: a score that validation converts is accepted. (4) So every story that the final
  node adds to the state is a story of the structured answer or is read from an object
  that holds all seven members; none is completed with a default.
\<close>

theorem final_step_validation:
  "(structured_llm env m (SystemMessage sys # AgentState.messages s) = Inr parsed
      \<longrightarrow> final_step env m sys s = ([StructuredCall], Inr (ScoutOutput.NewsStories parsed)))
   \<and> (structured_llm env m (SystemMessage sys # AgentState.messages s) = Inl exn
        \<and> plain_llm env m (SystemMessage sys # AgentState.messages s) = Inr body
        \<and> json_loads env (isolate_json env body) = Some (JObj kvs)
        \<and> map_of kvs ''NewsStories'' = Some (JArr items)
      \<longrightarrow> (list_ex (story_defect (str_to_int env)) items
             \<longrightarrow> final_step env m sys s =
                   ([StructuredCall, PlainCall],
                    Inl (ValueError ''Scout output failed validation'')))
          \<and> (\<not> list_ex (story_defect (str_to_int env)) items
               \<and> map_of kvs ''Explanation'' = Some (JStr e)
             \<longrightarrow> (\<exists>stories. final_step env m sys s = ([StructuredCall, PlainCall], Inr stories)
                     \<and> list_all2 (story_reads (str_to_int env)) items stories)))
   \<and> (final_node env m sys s = (tr, Inr a)
      \<longrightarrow> (\<exists>stories. AgentState.NewsStories a = AgentState.NewsStories s @ stories
             \<and> ((\<exists>answer. structured_llm env m (SystemMessage sys # AgentState.messages s)
                             = Inr answer
                           \<and> stories = ScoutOutput.NewsStories answer)
                  \<or> (\<exists>exn' body' kvs' items'.
                        structured_llm env m (SystemMessage sys # AgentState.messages s) = Inl exn'
                        \<and> plain_llm env m (SystemMessage sys # AgentState.messages s) = Inr body'
                        \<and> json_loads env (isolate_json env body') = Some (JObj kvs')
                        \<and> map_of kvs' ''NewsStories'' = Some (JArr items')
                        \<and> list_all2 (story_reads (str_to_int env)) items' stories))))"
proof (intro conjI impI)
  assume "structured_llm env m (SystemMessage sys # AgentState.messages s) = Inr parsed"
  then show "final_step env m sys s = ([StructuredCall], Inr (ScoutOutput.NewsStories parsed))"
    by (rule final_step_direct)
next
  assume h: "structured_llm env m (SystemMessage sys # AgentState.messages s) = Inl exn
        \<and> plain_llm env m (SystemMessage sys # AgentState.messages s) = Inr body
        \<and> json_loads env (isolate_json env body) = Some (JObj kvs)
        \<and> map_of kvs ''NewsStories'' = Some (JArr items)"
    and d: "list_ex (story_defect (str_to_int env)) items"
  from h d show "final_step env m sys s =
      ([StructuredCall, PlainCall], Inl (ValueError ''Scout output failed validation''))"
    by (intro final_step_rejects_defect[of env m sys s exn body kvs items]) simp_all
next
  assume h: "structured_llm env m (SystemMessage sys # AgentState.messages s) = Inl exn
        \<and> plain_llm env m (SystemMessage sys # AgentState.messages s) = Inr body
        \<and> json_loads env (isolate_json env body) = Some (JObj kvs)
        \<and> map_of kvs ''NewsStories'' = Some (JArr items)"
    and d: "\<not> list_ex (story_defect (str_to_int env)) items
            \<and> map_of kvs ''Explanation'' = Some (JStr e)"
  from h d show "\<exists>stories. final_step env m sys s = ([StructuredCall, PlainCall], Inr stories)
                     \<and> list_all2 (story_reads (str_to_int env)) items stories"
    by (intro final_step_accepts_whole[of env m sys s exn body kvs items e]) simp_all
next
  assume f: "final_node env m sys s = (tr, Inr a)"
  then obtain stories where fs: "final_step env m sys s = (tr, Inr stories)"
    and a: "a = s\<lparr>AgentState.NewsStories := AgentState.NewsStories s @ stories\<rparr>"
    by (auto simp: final_node_def split: prod.splits sum.splits)
  from fs have "snd (final_step env m sys s) = Inr stories" by simp
  from final_step_origin[OF this] a
  show "\<exists>stories. AgentState.NewsStories a = AgentState.NewsStories s @ stories
             \<and> ((\<exists>answer. structured_llm env m (SystemMessage sys # AgentState.messages s)
                             = Inr answer
                           \<and> stories = ScoutOutput.NewsStories answer)
                  \<or> (\<exists>exn' body' kvs' items'.
                        structured_llm env m (SystemMessage sys # AgentState.messages s) = Inl exn'
                        \<and> plain_llm env m (SystemMessage sys # AgentState.messages s) = Inr body'
                        \<and> json_loads env (isolate_json env body') = Some (JObj kvs')
                        \<and> map_of kvs' ''NewsStories'' = Some (JArr items')
                        \<and> list_all2 (story_reads (str_to_int env)) items' stories))"
    by (intro exI[of _ stories]) simp
qed

theorem final_step_validation_witness:
  "final_step eager_env ''gpt-5-mini'' (SCOUT_PROMPT ''AI'' ''Focus on new models'')
       fresh_agent_state = ([StructuredCall], Inr [robotics_story])
   \<and> final_step no_topic_env ''gpt-5-mini'' (SCOUT_PROMPT ''AI'' ''Focus on new models'')
         fresh_agent_state =
       ([StructuredCall, PlainCall], Inl (ValueError ''Scout output failed validation''))
   \<and> (\<exists>stories. final_step string_score_env ''gpt-5-mini''
                    (SCOUT_PROMPT ''AI'' ''Focus on new models'') fresh_agent_state =
                  ([StructuredCall, PlainCall], Inr stories)
                \<and> list_all2 (story_reads (str_to_int string_score_env))
                     [story_json (JStr ''7'')] stories)"
proof -
  let ?sys = "SCOUT_PROMPT ''AI'' ''Focus on new models''"
  let ?msgs = "SystemMessage ?sys # AgentState.messages fresh_agent_state"
  have direct: "final_step eager_env ''gpt-5-mini'' ?sys fresh_agent_state =
                  ([StructuredCall], Inr [robotics_story])"
  proof -
    have answer: "structured_llm eager_env ''gpt-5-mini'' ?msgs =
                    Inr \<lparr>ScoutOutput.NewsStories = [robotics_story], Explanation = ''one story''\<rparr>"
      by (simp add: eager_env_def)
    from final_step_validation[where env = eager_env and m = "''gpt-5-mini''" and sys = ?sys
          and s = fresh_agent_state
          and parsed = "\<lparr>ScoutOutput.NewsStories = [robotics_story], Explanation = ''one story''\<rparr>"]
      answer
    show ?thesis by simp
  qed
  have rejected: "final_step no_topic_env ''gpt-5-mini'' ?sys fresh_agent_state =
                    ([StructuredCall, PlainCall], Inl (ValueError ''Scout output failed validation''))"
  proof -
    have structured: "structured_llm no_topic_env ''gpt-5-mini'' ?msgs = Inl ValidationError"
      by (simp add: no_topic_env_def)
    have plain: "plain_llm no_topic_env ''gpt-5-mini'' ?msgs = Inr no_topic_text"
      by (simp add: no_topic_env_def)
    have loads: "json_loads no_topic_env (isolate_json no_topic_env no_topic_text) =
                   Some (JObj [(''NewsStories'', JArr [no_topic_story_json]),
                               (''Explanation'', JStr ''one story'')])"
      by code_simp
    have stories: "map_of [(''NewsStories'', JArr [no_topic_story_json]),
                           (''Explanation'', JStr ''one story'')] ''NewsStories''
                     = Some (JArr [no_topic_story_json])"
      by simp
    have defect: "list_ex (story_defect (str_to_int no_topic_env)) [no_topic_story_json]"
      by code_simp
    from final_step_validation[where env = no_topic_env and m = "''gpt-5-mini''" and sys = ?sys
          and s = fresh_agent_state and exn = ValidationError and body = no_topic_text
          and kvs = "[(''NewsStories'', JArr [no_topic_story_json]),
                      (''Explanation'', JStr ''one story'')]"
          and items = "[no_topic_story_json]"]
      structured plain loads stories defect
    show ?thesis by blast
  qed
  have accepted: "\<exists>stories. final_step string_score_env ''gpt-5-mini'' ?sys fresh_agent_state =
                     ([StructuredCall, PlainCall], Inr stories)
                   \<and> list_all2 (story_reads (str_to_int string_score_env))
                        [story_json (JStr ''7'')] stories"
  proof -
    have structured: "structured_llm string_score_env ''gpt-5-mini'' ?msgs = Inl ValidationError"
      by (simp add: string_score_env_def)
    have plain: "plain_llm string_score_env ''gpt-5-mini'' ?msgs = Inr string_score_text"
      by (simp add: string_score_env_def)
    have loads: "json_loads string_score_env (isolate_json string_score_env string_score_text) =
                   Some (JObj [(''NewsStories'', JArr [story_json (JStr ''7'')]),
                               (''Explanation'', JStr ''one story'')])"
      by code_simp
    have stories: "map_of [(''NewsStories'', JArr [story_json (JStr ''7'')]),
                           (''Explanation'', JStr ''one story'')] ''NewsStories''
                     = Some (JArr [story_json (JStr ''7'')])"
      by simp
    have explanation: "map_of [(''NewsStories'', JArr [story_json (JStr ''7'')]),
                               (''Explanation'', JStr ''one story'')] ''Explanation''
                         = Some (JStr ''one story'')"
      by simp
    have whole: "\<not> list_ex (story_defect (str_to_int string_score_env)) [story_json (JStr ''7'')]"
      by code_simp
    from final_step_validation[where env = string_score_env and m = "''gpt-5-mini''"
          and sys = ?sys and s = fresh_agent_state and exn = ValidationError
          and body = string_score_text
          and kvs = "[(''NewsStories'', JArr [story_json (JStr ''7'')]),
                      (''Explanation'', JStr ''one story'')]"
          and items = "[story_json (JStr ''7'')]" and e = "''one story''"]
      structured plain loads stories explanation whole
    show ?thesis by blast
  qed
  from direct rejected accepted show ?thesis by (intro conjI)
qed

text \<open>
  C10 as stated fails: the structured answer fails the schema and the final step raises
  nothing; in the plain answer the score of the story is the string \<^verbatim>\<open>"7"\<close>, a mistyped field,
  and the final step raises nothing either: it returns the story with the score 7.
\<close>

theorem string_score_is_accepted:
  "structured_llm string_score_env ''gpt-5-mini''
       (SystemMessage (SCOUT_PROMPT ''AI'' ''Focus on new models'')
          # AgentState.messages fresh_agent_state) = Inl ValidationError
   \<and> json_loads string_score_env (isolate_json string_score_env string_score_text) =
       Some (JObj [(''NewsStories'', JArr [story_json (JStr ''7'')]),
                   (''Explanation'', JStr ''one story'')])
   \<and> final_step string_score_env ''gpt-5-mini'' (SCOUT_PROMPT ''AI'' ''Focus on new models'')
         fresh_agent_state =
       ([StructuredCall, PlainCall],
        Inr [\<lparr>title = ''Robots'', summary = ''Pilots begin'', source = ''Wire'',
              url = ''https://example.org/r'', score = 7, timestamp = ''2025-01-15'',
              topic = ''Robotics''\<rparr>])"
  by code_simp

end
